theory Spec2Isabelle
  imports Main "HOL-Library.Char_ord" "HOL-Library.List_Lexorder" "HOL-Library.Multiset" "HOL-Library.Product_Lexorder"
begin

section \<open>Python values shared by the functions of \<open>ktoolbox/action/utils.py\<close>\<close>

text \<open>
  Exceptions are values. A function that can raise returns \<open>py_error + 'a\<close>, with
  \<open>Inl\<close> for the exception that leaves it.
\<close>

datatype py_error =
    TypeError
  | KeyError string
  | ValueError
  | IndexError
  | AttributeError
  | SystemExit int

text \<open>
  A \<open>datetime\<close> is a point of one linear time axis, written as an integer. All
  datetimes of a run are taken to be mutually comparable (all naive or all aware).
  An \<open>Optional[datetime]\<close> is a \<open>datetime option\<close>; ordering \<open>None\<close> against
  anything raises \<open>TypeError\<close>, as \<open>None < d\<close>, \<open>d > None\<close> and \<open>None > None\<close> do.
\<close>

type_synonym datetime = int

fun py_lt :: "datetime option \<Rightarrow> datetime option \<Rightarrow> py_error + bool" where
  "py_lt (Some a) (Some b) = Inr (a < b)"
| "py_lt _ _ = Inl TypeError"

fun py_gt :: "datetime option \<Rightarrow> datetime option \<Rightarrow> py_error + bool" where
  "py_gt (Some a) (Some b) = Inr (a > b)"
| "py_gt _ _ = Inl TypeError"

text \<open>
  Modelled from the spec: the \<open>Post\<close> model of \<open>ktoolbox.api.model\<close>, which is
  imported by \<open>utils.py\<close> and not part of the sources. The fields are those of the
  spec's PostRecord: \<open>id\<close>, \<open>user\<close>, \<open>service\<close> and \<open>title\<close> are strings (the title may
  be empty), \<open>added\<close>, \<open>published\<close> and \<open>edited\<close> are optional timestamps. The field
  \<open>id\<close> is named \<open>post_id\<close> here.
\<close>

record post =
  post_id :: string
  user :: string
  service :: string
  title :: string
  added :: "datetime option"
  published :: "datetime option"
  edited :: "datetime option"

text \<open>
  The builtin \<open>filter(pred, xs)\<close>, run to its end: the items it yields, in order, and
  the exception that stopped it, if \<open>pred\<close> raised. \<open>py_list\<close> is \<open>list(...)\<close> of it:
  the exception leaves \<open>list\<close> and the items seen so far are lost.
\<close>

fun py_filter :: "('a \<Rightarrow> py_error + bool) \<Rightarrow> 'a list \<Rightarrow> 'a list \<times> py_error option" where
  "py_filter pred [] = ([], None)"
| "py_filter pred (x # xs) =
     (case pred x of
        Inl e \<Rightarrow> ([], Some e)
      | Inr b \<Rightarrow>
          (case py_filter pred xs of
             (ys, r) \<Rightarrow> (if b then x # ys else ys, r)))"

definition py_list :: "'a list \<times> py_error option \<Rightarrow> py_error + 'a list" where
  "py_list g = (case g of (ys, None) \<Rightarrow> Inr ys | (ys, Some e) \<Rightarrow> Inl e)"



section \<open>Time Window Filter\<close>

text \<open>
  \<open>_match_post_time\<close> (lines 39 to 56). \<open>start_time and post.published < start_time\<close>
  evaluates the comparison only when \<open>start_time\<close> is not \<open>None\<close> (a datetime is
  always truthy).
\<close>

definition match_post_time ::
  "post \<Rightarrow> datetime option \<Rightarrow> datetime option \<Rightarrow> py_error + bool" where
  "match_post_time p start_time end_time =
     (case (if start_time \<noteq> None then py_lt (published p) start_time else Inr False) of
        Inl e \<Rightarrow> Inl e
      | Inr before \<Rightarrow>
          if before then Inr False
          else
            (case (if end_time \<noteq> None then py_gt (published p) end_time else Inr False) of
               Inl e \<Rightarrow> Inl e
             | Inr after \<Rightarrow> if after then Inr False else Inr True))"

text \<open>
  \<open>filter_posts_by_time\<close> (lines 59 to 72) is a generator: the model gives the posts
  it yields and the exception that ends it, if any.
\<close>

definition filter_posts_by_time ::
  "post list \<Rightarrow> datetime option \<Rightarrow> datetime option \<Rightarrow> post list \<times> py_error option" where
  "filter_posts_by_time post_list start_time end_time =
     py_filter (\<lambda>x. match_post_time x start_time end_time) post_list"

text \<open>
  The window of the spec, as a predicate: \<open>published \<ge> start\<close> when a start is given
  and \<open>published \<le> end\<close> when an end is given.
\<close>

definition in_window :: "datetime option \<Rightarrow> datetime option \<Rightarrow> post \<Rightarrow> bool" where
  "in_window start_time end_time p =
     ((case start_time of
         None \<Rightarrow> True
       | Some s \<Rightarrow> (case published p of None \<Rightarrow> False | Some t \<Rightarrow> s \<le> t)) \<and>
      (case end_time of
         None \<Rightarrow> True
       | Some e \<Rightarrow> (case published p of None \<Rightarrow> False | Some t \<Rightarrow> t \<le> e)))"



section \<open>Indices Differ\<close>

text \<open>
  Modelled from the spec: \<open>CreatorIndices\<close> of \<open>ktoolbox.job\<close>, imported by
  \<open>utils.py\<close> and not part of the sources. The function reads and writes its
  \<open>posts\<close> dictionary only, from post id to the post last stored; whatever else the
  object holds is the record's extension and is carried along unchanged.

  A \<open>CreatorIndices\<close> object is mutable and passed by reference, so the objects live
  in a store: \<open>cells\<close> maps an address to the object there and \<open>next_free\<close> is the
  first address not yet allocated.
\<close>

record creator_indices =
  posts :: "string \<rightharpoonup> post"

record store =
  cells :: "nat \<Rightarrow> creator_indices"
  next_free :: nat

text \<open>The lambda of line 87: \<open>x.id not in indices.posts or x.edited > indices.posts[x.id].edited\<close>.\<close>

definition edited_after :: "creator_indices \<Rightarrow> post \<Rightarrow> py_error + bool" where
  "edited_after indices x =
     (case posts indices (post_id x) of
        None \<Rightarrow> Inr True
      | Some stored \<Rightarrow> py_gt (edited x) (edited stored))"

text \<open>\<open>indices.model_copy(deep=True)\<close>: a new object with a copy of the whole value.\<close>

definition model_copy_deep :: "nat \<Rightarrow> store \<Rightarrow> nat \<times> store" where
  "model_copy_deep a s =
     (next_free s,
      s\<lparr>cells := (cells s)(next_free s := cells s a), next_free := Suc (next_free s)\<rparr>)"

text \<open>\<open>new_indices.posts[post.id] = post\<close>: an update in place of the object at \<open>a\<close>.\<close>

definition set_post :: "nat \<Rightarrow> post \<Rightarrow> store \<Rightarrow> store" where
  "set_post a p s =
     s\<lparr>cells := (cells s)(a := (cells s a)\<lparr>posts := (posts (cells s a))(post_id p \<mapsto> p)\<rparr>)\<rparr>"

text \<open>
  \<open>filter_posts_by_indices\<close> (lines 75 to 93), called with the list of posts and the
  address of the indices object: the value returned or the exception raised, and the
  store afterwards.
\<close>

definition filter_posts_by_indices ::
  "post list \<Rightarrow> nat \<Rightarrow> store \<Rightarrow> (py_error + post list \<times> nat) \<times> store" where
  "filter_posts_by_indices ps indices s =
     (case py_list (py_filter (edited_after (cells s indices)) ps) of
        Inl e \<Rightarrow> (Inl e, s)
      | Inr new_list \<Rightarrow>
          (case model_copy_deep indices s of
             (new_indices, s1) \<Rightarrow>
               (Inr (new_list, new_indices), fold (set_post new_indices) new_list s1)))"

text \<open>
  The changed set of the spec, as a predicate: the id is absent from the index, or the
  fetched \<open>edited\<close> is strictly greater than the stored one. \<open>timestamps_present\<close> says
  that the comparison of line 87, where it is made, has a timestamp on both sides.
\<close>

definition is_changed :: "creator_indices \<Rightarrow> post \<Rightarrow> bool" where
  "is_changed indices x =
     (case posts indices (post_id x) of
        None \<Rightarrow> True
      | Some stored \<Rightarrow>
          (case (edited x, edited stored) of
             (Some t, Some u) \<Rightarrow> u < t
           | _ \<Rightarrow> False))"

definition timestamps_present :: "creator_indices \<Rightarrow> post \<Rightarrow> bool" where
  "timestamps_present indices x =
     (case posts indices (post_id x) of
        None \<Rightarrow> True
      | Some stored \<Rightarrow> edited x \<noteq> None \<and> edited stored \<noteq> None)"



section \<open>Path Namer\<close>

text \<open>
  \<open>config.job\<close> is read by attribute name at run time, so the object is modelled by
  its attributes: a map from names to values. Reading an attribute the object does
  not have raises \<open>AttributeError\<close>. \<open>JobConfiguration\<close> builds the object that
  \<open>configuration.py\<close> (lines 79 to 86) declares: its fields are \<open>count\<close>,
  \<open>post_id_as_name\<close> and \<open>post_structure\<close>.
\<close>

datatype cfg_value = PyBool bool | PyInt int | PyStr string | PyObject

definition py_getattr :: "(string \<rightharpoonup> cfg_value) \<Rightarrow> string \<Rightarrow> py_error + cfg_value" where
  "py_getattr obj name = (case obj name of None \<Rightarrow> Inl AttributeError | Some v \<Rightarrow> Inr v)"

fun truthy :: "cfg_value \<Rightarrow> bool" where
  "truthy (PyBool b) = b"
| "truthy (PyInt i) = (i \<noteq> 0)"
| "truthy (PyStr s) = (s \<noteq> [])"
| "truthy PyObject = True"

definition JobConfiguration :: "int \<Rightarrow> bool \<Rightarrow> (string \<rightharpoonup> cfg_value)" where
  "JobConfiguration count_value post_id_as_name_value =
     [''count'' \<mapsto> PyInt count_value,
      ''post_id_as_name'' \<mapsto> PyBool post_id_as_name_value,
      ''post_structure'' \<mapsto> PyObject]"

text \<open>
  \<open>str.format\<close> with keyword arguments only, all of them strings, as line 24 calls it.
  The format string is read from left to right and the first field that fails ends
  the call. The outcome is \<open>Some (Inr s)\<close> for the text produced, \<open>Some (Inl e)\<close> for
  the exception raised, and \<open>None\<close> when the string uses a part of the format language
  that is not modelled: a conversion (\<open>!r\<close>), a format specification (\<open>:>8\<close>), an index
  (\<open>[0]\<close>) or an attribute (\<open>.upper\<close>) in a field, or a field name with a character
  outside ASCII.

  \<open>get_integer\<close> reads a name as an index the way CPython does, digit by digit
  from the left: a character that is not a decimal digit ends the reading (the name
  is no index), and a digit that would take the value past \<open>2^63 - 1\<close> raises
  \<open>ValueError\<close> at once, whatever follows it. The empty name is no index.

  \<open>get_field\<close> finds the value of a field name. The part before the first dot is the
  argument's name: an empty one is an automatic index and a decimal one an explicit
  index, both out of range for the empty tuple of positional arguments; any other is
  a key of the keyword arguments and raises \<open>KeyError\<close> when it is missing.
\<close>

fun get_integer_from :: "int \<Rightarrow> string \<Rightarrow> py_error + int option" where
  "get_integer_from accumulator [] = Inr (Some accumulator)"
| "get_integer_from accumulator (c # cs) =
     (if c \<notin> set ''0123456789'' then Inr None
      else if (2 ^ 63 - 1 - (of_char c - 48)) div 10 < accumulator then Inl ValueError
      else get_integer_from (accumulator * 10 + (of_char c - 48)) cs)"

definition get_integer :: "string \<Rightarrow> py_error + int option" where
  "get_integer s = (if s = [] then Inr None else get_integer_from 0 s)"

definition get_field :: "(string \<rightharpoonup> string) \<Rightarrow> string \<Rightarrow> (py_error + string) option" where
  "get_field kwargs field_name =
     (let first = takeWhile (\<lambda>c. c \<noteq> CHR ''.'') field_name in
      if list_ex (\<lambda>c. 128 \<le> (of_char c :: nat)) field_name then None
      else
        (case get_integer first of
           Inl e \<Rightarrow> Some (Inl e)
         | Inr (Some index) \<Rightarrow> Some (Inl IndexError)
         | Inr None \<Rightarrow>
             if first = [] then Some (Inl IndexError)
             else
               (case kwargs first of
                  None \<Rightarrow> Some (Inl (KeyError first))
                | Some v \<Rightarrow> if first = field_name then Some (Inr v) else None)))"

fun emit :: "string \<Rightarrow> (py_error + string) option \<Rightarrow> (py_error + string) option" where
  "emit s (Some (Inr t)) = Some (Inr (s @ t))"
| "emit s r = r"

text \<open>
  \<open>markup\<close> scans the format string. Its second argument is \<open>None\<close> in literal text
  and \<open>Some name\<close> inside a replacement field, \<open>name\<close> being the part of the field
  read so far. In literal text \<open>{{\<close> and \<open>}}\<close> stand for one brace, a single \<open>}\<close> and
  a \<open>{\<close> at the end raise \<open>ValueError\<close>; in a field a \<open>{\<close> and the end of the string
  raise \<open>ValueError\<close>.
\<close>

fun markup :: "(string \<rightharpoonup> string) \<Rightarrow> string option \<Rightarrow> string \<Rightarrow> (py_error + string) option" where
  "markup kwargs None [] = Some (Inr [])"
| "markup kwargs None (c # cs) =
     (if c = CHR ''{'' then
        (case cs of
           [] \<Rightarrow> Some (Inl ValueError)
         | d # ds \<Rightarrow>
             if d = CHR ''{'' then emit [c] (markup kwargs None ds)
             else markup kwargs (Some []) cs)
      else if c = CHR ''}'' then
        (case cs of
           [] \<Rightarrow> Some (Inl ValueError)
         | d # ds \<Rightarrow>
             if d = CHR ''}'' then emit [c] (markup kwargs None ds)
             else Some (Inl ValueError))
      else emit [c] (markup kwargs None cs))"
| "markup kwargs (Some name) [] = Some (Inl ValueError)"
| "markup kwargs (Some name) (c # cs) =
     (if c = CHR ''{'' then Some (Inl ValueError)
      else if c = CHR ''}'' then
        (case get_field kwargs name of
           Some (Inr v) \<Rightarrow> emit v (markup kwargs None cs)
         | r \<Rightarrow> r)
      else if c \<in> set ''[!:'' then None
      else markup kwargs (Some (name @ [c])) cs)"

definition str_format :: "string \<Rightarrow> (string \<rightharpoonup> string) \<Rightarrow> (py_error + string) option" where
  "str_format template kwargs = markup kwargs None template"

text \<open>
  \<open>generate_post_path_name\<close> (lines 16 to 36). The global \<open>config.job\<close> is the
  argument \<open>job\<close>. The library functions \<open>sanitize_filename\<close> (pathvalidate) and
  \<open>datetime.strftime\<close> are not part of the sources and are parameters. The result
  is the list of the calls of \<open>logger.error\<close>, each recorded by the exception it
  reports, and the outcome of the call: the name returned or the exception raised
  (\<open>exit(1)\<close> raises \<open>SystemExit 1\<close>), or \<open>None\<close> where \<open>str_format\<close> is.

  The attribute \<open>post_dirname_format.format\<close> is looked up before the arguments are
  evaluated; a value that is not a string has no such attribute. Only \<open>KeyError\<close> is
  caught by the \<open>except\<close> clause.
\<close>

datatype log_record = Error_logged py_error

definition time_format :: string where
  "time_format = ''%Y-%m-%d''"

definition format_kwargs :: "(datetime \<Rightarrow> string \<Rightarrow> string) \<Rightarrow> post \<Rightarrow> (string \<rightharpoonup> string)" where
  "format_kwargs strftime p =
     [''id'' \<mapsto> post_id p,
      ''user'' \<mapsto> user p,
      ''service'' \<mapsto> service p,
      ''title'' \<mapsto> title p,
      ''added'' \<mapsto> (case added p of None \<Rightarrow> [] | Some d \<Rightarrow> strftime d time_format),
      ''published'' \<mapsto> (case published p of None \<Rightarrow> [] | Some d \<Rightarrow> strftime d time_format),
      ''edited'' \<mapsto> (case edited p of None \<Rightarrow> [] | Some d \<Rightarrow> strftime d time_format)]"

definition generate_post_path_name ::
  "(string \<Rightarrow> string) \<Rightarrow> (datetime \<Rightarrow> string \<Rightarrow> string) \<Rightarrow> (string \<rightharpoonup> cfg_value) \<Rightarrow> post \<Rightarrow>
     log_record list \<times> (py_error + string) option" where
  "generate_post_path_name sanitize_filename strftime job p =
     (case py_getattr job ''post_id_as_path'' of
        Inl e \<Rightarrow> ([], Some (Inl e))
      | Inr id_as_path \<Rightarrow>
          if truthy id_as_path \<or> title p = [] then ([], Some (Inr (post_id p)))
          else
            (case py_getattr job ''post_dirname_format'' of
               Inl e \<Rightarrow> ([], Some (Inl e))
             | Inr (PyStr template) \<Rightarrow>
                 (case str_format template (format_kwargs strftime p) of
                    None \<Rightarrow> ([], None)
                  | Some (Inr s) \<Rightarrow> ([], Some (Inr (sanitize_filename s)))
                  | Some (Inl (KeyError k)) \<Rightarrow>
                      ([Error_logged (KeyError k)], Some (Inl (SystemExit 1)))
                  | Some (Inl e) \<Rightarrow> ([], Some (Inl e)))
             | Inr other \<Rightarrow> ([], Some (Inl AttributeError))))"

text \<open>
  Templates built from parts, to state what a well-formed template is: literal text,
  written with its braces doubled, and replacement fields \<open>{name}\<close>. The recognized
  names are the keyword arguments of line 25 to 31.
\<close>

datatype segment = Text string | Placeholder string

fun segment_source :: "segment \<Rightarrow> string" where
  "segment_source (Text s) =
     concat (map (\<lambda>c. if c = CHR ''{'' \<or> c = CHR ''}'' then [c, c] else [c]) s)"
| "segment_source (Placeholder n) = CHR ''{'' # n @ [CHR ''}'']"

definition template_of :: "segment list \<Rightarrow> string" where
  "template_of segs = concat (map segment_source segs)"

definition recognized :: "string list" where
  "recognized = [''id'', ''user'', ''service'', ''title'', ''added'', ''published'', ''edited'']"

fun recognized_segment :: "segment \<Rightarrow> bool" where
  "recognized_segment (Text s) = True"
| "recognized_segment (Placeholder n) = (n \<in> set recognized)"

fun segment_value :: "(string \<rightharpoonup> string) \<Rightarrow> segment \<Rightarrow> string" where
  "segment_value kwargs (Text s) = s"
| "segment_value kwargs (Placeholder n) = (case kwargs n of None \<Rightarrow> [] | Some v \<Rightarrow> v)"

definition plain_name :: "string \<Rightarrow> bool" where
  "plain_name n =
     (n \<noteq> [] \<and> get_integer n = Inr None \<and>
      list_all (\<lambda>c. c \<notin> set ''{}[!:.'' \<and> (of_char c :: nat) < 128) n)"


section \<open>SHA-256\<close>

text \<open>
  \<open>hashlib.sha256(data).hexdigest()\<close> (FIPS 180-4), on a message given as the list of
  its bytes. A 32-bit word is an integer below \<open>2^32\<close>: words are added modulo
  \<open>2^32\<close>, and rotated and shifted by division.
\<close>

unbundle bit_operations_syntax

text \<open>
  The round constants are the first 32 bits of the fractional parts of the cube roots
  of the first 64 primes, and the initial hash value is made of those of the square
  roots of the first 8 (FIPS 180-4, 4.2.2 and 5.3.3). \<open>root_below k b n r\<close> adds to \<open>r\<close>
  the bits below \<open>b\<close> that keep its \<open>k\<close>-th power at most \<open>n\<close>.
\<close>

fun sieve :: "int list \<Rightarrow> int list" where
  "sieve [] = []"
| "sieve (p # xs) = p # sieve (filter (\<lambda>x. x mod p \<noteq> 0) xs)"

definition first_primes :: "nat \<Rightarrow> int list" where
  "first_primes n = take n (sieve [2..311])"

fun root_below :: "nat \<Rightarrow> nat \<Rightarrow> int \<Rightarrow> int \<Rightarrow> int" where
  "root_below k 0 n r = r"
| "root_below k (Suc b) n r =
     root_below k b n (if (r + 2 ^ b) ^ k \<le> n then r + 2 ^ b else r)"

definition fraction_bits :: "nat \<Rightarrow> int \<Rightarrow> int" where
  "fraction_bits k p = root_below k 36 (p * 2 ^ (32 * k)) 0 mod 2 ^ 32"

definition round_constants :: "int list" where
  "round_constants = map (fraction_bits 3) (first_primes 64)"

definition initial_hash :: "int list" where
  "initial_hash = map (fraction_bits 2) (first_primes 8)"

definition add32 :: "int \<Rightarrow> int \<Rightarrow> int" where
  "add32 x y = (x + y) mod 4294967296"

definition rotr :: "nat \<Rightarrow> int \<Rightarrow> int" where
  "rotr n x = x div 2 ^ n + (x mod 2 ^ n) * 2 ^ (32 - n)"

definition big_sigma0 :: "int \<Rightarrow> int" where
  "big_sigma0 x = rotr 2 x XOR rotr 13 x XOR rotr 22 x"

definition big_sigma1 :: "int \<Rightarrow> int" where
  "big_sigma1 x = rotr 6 x XOR rotr 11 x XOR rotr 25 x"

definition small_sigma0 :: "int \<Rightarrow> int" where
  "small_sigma0 x = rotr 7 x XOR rotr 18 x XOR x div 2 ^ 3"

definition small_sigma1 :: "int \<Rightarrow> int" where
  "small_sigma1 x = rotr 17 x XOR rotr 19 x XOR x div 2 ^ 10"

definition sha_ch :: "int \<Rightarrow> int \<Rightarrow> int \<Rightarrow> int" where
  "sha_ch x y z = (x AND y) XOR ((4294967295 - x) AND z)"

definition sha_maj :: "int \<Rightarrow> int \<Rightarrow> int \<Rightarrow> int" where
  "sha_maj x y z = (x AND y) XOR (x AND z) XOR (y AND z)"

fun big_endian :: "nat \<Rightarrow> int \<Rightarrow> int list" where
  "big_endian 0 v = []"
| "big_endian (Suc k) v = (v div 256 ^ k) mod 256 # big_endian k v"

definition pad :: "int list \<Rightarrow> int list" where
  "pad bs =
     bs @ [128] @ replicate ((119 - length bs mod 64) mod 64) 0 @
     big_endian 8 (8 * int (length bs))"

fun words_of :: "int list \<Rightarrow> int list" where
  "words_of (a # b # c # d # bs) = (((a * 256 + b) * 256 + c) * 256 + d) # words_of bs"
| "words_of bs = []"

text \<open>The message schedule is built newest word first.\<close>

fun extend :: "nat \<Rightarrow> int list \<Rightarrow> int list" where
  "extend 0 ws = ws"
| "extend (Suc k) ws =
     extend k (add32 (add32 (small_sigma1 (ws ! 1)) (ws ! 6))
                 (add32 (small_sigma0 (ws ! 14)) (ws ! 15)) # ws)"

definition schedule :: "int list \<Rightarrow> int list" where
  "schedule block = rev (extend 48 (rev block))"

fun sha_round :: "int \<times> int \<Rightarrow> int list \<Rightarrow> int list" where
  "sha_round (k, w) [a, b, c, d, e, f, g, h] =
     (let t1 = add32 (add32 (add32 h (big_sigma1 e)) (sha_ch e f g)) (add32 k w);
          t2 = add32 (big_sigma0 a) (sha_maj a b c)
      in [add32 t1 t2, a, b, c, add32 d t1, e, f, g])"
| "sha_round kw hs = hs"

definition compress :: "int list \<Rightarrow> int list \<Rightarrow> int list" where
  "compress hs block =
     map2 add32 hs (fold sha_round (zip round_constants (schedule block)) hs)"

fun blocks :: "int list \<Rightarrow> int list list" where
  "blocks [] = []"
| "blocks ws = take 16 ws # blocks (drop 16 ws)"

definition hex_digit :: "int \<Rightarrow> char" where
  "hex_digit n = ''0123456789abcdef'' ! nat (n mod 16)"

fun hex :: "nat \<Rightarrow> int \<Rightarrow> string" where
  "hex 0 v = []"
| "hex (Suc k) v = hex_digit (v div 16 ^ k) # hex k v"

definition sha256_hexdigest :: "int list \<Rightarrow> string" where
  "sha256_hexdigest bs =
     concat (map (hex 8)
       (fold (\<lambda>b hs. compress hs b) (blocks (words_of (pad bs))) initial_hash))"

section \<open>Canonical Hasher\<close>

text \<open>
  The values \<open>json_hash\<close> (lines 95 to 139) works on: \<open>None\<close>, booleans, integers,
  strings, lists, and dictionaries with string keys. A dictionary is the list of its
  items in insertion order; its keys are pairwise distinct (\<open>well_formed\<close>). Floats
  are not modelled. A string is the list of its code points, each below 256.
\<close>

datatype json =
    JNull
  | JBool bool
  | JInt int
  | JStr string
  | JList "json list"
  | JDict "(string \<times> json) list"

fun well_formed :: "json \<Rightarrow> bool" where
  "well_formed (JList xs) = list_all well_formed xs"
| "well_formed (JDict items) =
     (distinct (map fst items) \<and> list_all (\<lambda>item. well_formed (snd item)) items)"
| "well_formed v = True"

subsection \<open>Text of values: \<open>str\<close>, \<open>json.dumps\<close> and \<open>str.encode\<close>\<close>

function decimal :: "int \<Rightarrow> string" where
  "decimal n =
     (if n < 10 then [''0123456789'' ! nat n]
      else decimal (n div 10) @ [''0123456789'' ! nat (n mod 10)])"
  by pat_completeness auto
termination
  by (relation "measure nat") auto

definition str_int :: "int \<Rightarrow> string" where
  "str_int i = (if i < 0 then CHR ''-'' # decimal (- i) else decimal i)"

text \<open>\<open>str(v)\<close> of a value that is neither a list nor a dictionary (line 129).\<close>

fun py_str :: "json \<Rightarrow> string" where
  "py_str JNull = ''None''"
| "py_str (JBool b) = (if b then ''True'' else ''False'')"
| "py_str (JInt i) = str_int i"
| "py_str (JStr s) = s"
| "py_str v = []"

text \<open>
  \<open>json.dumps\<close> with its defaults (\<open>ensure_ascii\<close>, separators \<open>, \<close> and \<open>: \<close>):
  in a string the quote, the backslash and every character outside the printable
  ASCII range are escaped. With \<open>sort_keys\<close> the items of a dictionary are written in
  the order of their keys.
\<close>

definition escape_char :: "char \<Rightarrow> string" where
  "escape_char c =
     (if c = CHR 0x22 then [CHR 0x5C, CHR 0x22]
      else if c = CHR 0x5C then [CHR 0x5C, CHR 0x5C]
      else if c = CHR 0x0A then [CHR 0x5C, CHR ''n'']
      else if c = CHR 0x0D then [CHR 0x5C, CHR ''r'']
      else if c = CHR 0x09 then [CHR 0x5C, CHR ''t'']
      else if c = CHR 0x08 then [CHR 0x5C, CHR ''b'']
      else if c = CHR 0x0C then [CHR 0x5C, CHR ''f'']
      else if (of_char c :: int) < 32 \<or> 126 < (of_char c :: int)
        then [CHR 0x5C, CHR ''u''] @ hex 4 (of_char c)
      else [c])"

definition dumps_str :: "string \<Rightarrow> string" where
  "dumps_str s = [CHR 0x22] @ concat (map escape_char s) @ [CHR 0x22]"

fun join :: "string \<Rightarrow> string list \<Rightarrow> string" where
  "join sep [] = []"
| "join sep [x] = x"
| "join sep (x # y # ys) = x @ sep @ join sep (y # ys)"

fun dumps :: "bool \<Rightarrow> json \<Rightarrow> string" where
  "dumps sort_keys JNull = ''null''"
| "dumps sort_keys (JBool b) = (if b then ''true'' else ''false'')"
| "dumps sort_keys (JInt i) = str_int i"
| "dumps sort_keys (JStr s) = dumps_str s"
| "dumps sort_keys (JList xs) = ''['' @ join '', '' (map (dumps sort_keys) xs) @ '']''"
| "dumps sort_keys (JDict items) =
     ''{'' @
     join '', ''
       (map (\<lambda>item. dumps_str (fst item) @ '': '' @ snd item)
          ((if sort_keys then sort_key fst else (\<lambda>xs. xs))
             (map (\<lambda>item. (fst item, dumps sort_keys (snd item))) items))) @
     ''}''"

text \<open>\<open>str.encode()\<close>: the UTF-8 bytes of a string.\<close>

definition encode :: "string \<Rightarrow> int list" where
  "encode s =
     concat (map (\<lambda>c. if (of_char c :: int) < 128 then [of_char c]
                        else [192 + of_char c div 64, 128 + of_char c mod 64]) s)"

subsection \<open>Comparison of values and \<open>sorted\<close>\<close>

text \<open>
  \<open>==\<close> never raises; \<open>True\<close> and \<open>False\<close> equal \<open>1\<close> and \<open>0\<close>. \<open><\<close> orders numbers
  (booleans among them), strings by code points and lists by their first differing
  elements, and raises \<open>TypeError\<close> for every other pair.
\<close>

fun is_number :: "json \<Rightarrow> bool" where
  "is_number (JBool b) = True"
| "is_number (JInt i) = True"
| "is_number v = False"

fun number :: "json \<Rightarrow> int" where
  "number (JBool b) = (if b then 1 else 0)"
| "number (JInt i) = i"
| "number v = 0"

fun py_eq :: "json \<Rightarrow> json \<Rightarrow> bool"
  and py_eq_list :: "json list \<Rightarrow> json list \<Rightarrow> bool"
  and py_eq_items :: "(string \<times> json) list \<Rightarrow> (string \<times> json) list \<Rightarrow> bool" where
  "py_eq JNull w = (w = JNull)"
| "py_eq (JBool a) w = (is_number w \<and> number (JBool a) = number w)"
| "py_eq (JInt a) w = (is_number w \<and> a = number w)"
| "py_eq (JStr a) w = (w = JStr a)"
| "py_eq (JList xs) w = (case w of JList ys \<Rightarrow> py_eq_list xs ys | _ \<Rightarrow> False)"
| "py_eq (JDict items) w =
     (case w of
        JDict others \<Rightarrow> length items = length others \<and> py_eq_items items others
      | _ \<Rightarrow> False)"
| "py_eq_list [] ys = (ys = [])"
| "py_eq_list (x # xs) ys = (case ys of [] \<Rightarrow> False | y # ys' \<Rightarrow> py_eq x y \<and> py_eq_list xs ys')"
| "py_eq_items [] others = True"
| "py_eq_items (item # items) others =
     ((case map_of others (fst item) of None \<Rightarrow> False | Some w \<Rightarrow> py_eq (snd item) w) \<and>
      py_eq_items items others)"

fun py_less :: "json \<Rightarrow> json \<Rightarrow> py_error + bool"
  and py_less_list :: "json list \<Rightarrow> json list \<Rightarrow> py_error + bool" where
  "py_less (JList xs) w = (case w of JList ys \<Rightarrow> py_less_list xs ys | _ \<Rightarrow> Inl TypeError)"
| "py_less (JStr a) w = (case w of JStr b \<Rightarrow> Inr (a < b) | _ \<Rightarrow> Inl TypeError)"
| "py_less JNull w = Inl TypeError"
| "py_less (JDict items) w = Inl TypeError"
| "py_less (JBool a) w =
     (if is_number w then Inr (number (JBool a) < number w) else Inl TypeError)"
| "py_less (JInt a) w = (if is_number w then Inr (a < number w) else Inl TypeError)"
| "py_less_list [] ys = Inr (ys \<noteq> [])"
| "py_less_list (x # xs) ys =
     (case ys of
        [] \<Rightarrow> Inr False
      | y # ys' \<Rightarrow> if py_eq x y then py_less_list xs ys' else py_less x y)"

text \<open>
  The sort key of line 114 is the pair \<open>(str(type(x)), x)\<close>. Pairs are compared
  by their first components when these differ, and else by the values, which are
  not compared with \<open><\<close> when they are equal.
\<close>

fun type_name :: "json \<Rightarrow> string" where
  "type_name JNull = ''<class 'NoneType'>''"
| "type_name (JBool b) = ''<class 'bool'>''"
| "type_name (JInt i) = ''<class 'int'>''"
| "type_name (JStr s) = ''<class 'str'>''"
| "type_name (JList xs) = ''<class 'list'>''"
| "type_name (JDict items) = ''<class 'dict'>''"

definition key_less :: "json \<Rightarrow> json \<Rightarrow> py_error + bool" where
  "key_less a b =
     (if type_name a \<noteq> type_name b then Inr (type_name a < type_name b)
      else if py_eq a b then Inr False
      else py_less a b)"

text \<open>
  \<open>sorted(l, key=...)\<close> is a stable sort that raises the \<open>TypeError\<close> of a comparison it
  makes. The model raises when some two keys of the list cannot be compared, and
  otherwise inserts the elements from the last to the first, each before the first
  element that is not smaller. A sort cannot end without having compared two such
  keys: they are lists that agree up to a place where one holds a value of one type
  and the other a value of another, every key compares in the same way with both or
  with neither, and so the comparisons made would be as they are under an order
  that puts the first type before the second and under one that puts it after, for
  which the sorted lists differ.
\<close>

fun comparable :: "json list \<Rightarrow> bool" where
  "comparable [] = True"
| "comparable (x # xs) =
     (list_all (\<lambda>y. key_less x y \<noteq> Inl TypeError \<and> key_less y x \<noteq> Inl TypeError) xs \<and>
      comparable xs)"

fun py_insort :: "json \<Rightarrow> json list \<Rightarrow> json list" where
  "py_insort x [] = [x]"
| "py_insort x (y # ys) =
     (if key_less y x = Inr True then y # py_insort x ys else x # y # ys)"

definition py_sorted :: "json list \<Rightarrow> py_error + json list" where
  "py_sorted l = (if comparable l then Inr (foldr py_insort l []) else Inl TypeError)"

subsection \<open>The function\<close>

text \<open>
  The nested functions of \<open>json_hash\<close> write into the list or dictionary they are
  given (lines 110, 112, 123, 125), so each returns, with its result or the exception
  it raises, the content of its argument after the call. \<open>replace\<close> is the body of
  both loops, on the value at one index or key: what the loop leaves there, and the
  exception that ended it, if any. \<open>sort_list\<close> returns the list itself when
  \<open>sorted_list\<close> is off and a sorted copy when it is on.
\<close>

fun sort_list :: "bool \<Rightarrow> json list \<Rightarrow> (py_error + json list) \<times> json list"
  and hash_dict :: "bool \<Rightarrow> (string \<times> json) list \<Rightarrow> (py_error + string) \<times> (string \<times> json) list"
  and replace :: "bool \<Rightarrow> json \<Rightarrow> py_error option \<times> json"
  and list_loop :: "bool \<Rightarrow> json list \<Rightarrow> py_error option \<times> json list"
  and dict_loop :: "bool \<Rightarrow> (string \<times> json) list \<Rightarrow> py_error option \<times> (string \<times> json) list" where
  "sort_list sorted_list l =
     (case list_loop sorted_list l of
        (Some e, l') \<Rightarrow> (Inl e, l')
      | (None, l') \<Rightarrow> (if sorted_list then py_sorted l' else Inr l', l'))"
| "hash_dict sorted_list d =
     (case dict_loop sorted_list d of
        (Some e, d') \<Rightarrow> (Inl e, d')
      | (None, d') \<Rightarrow> (Inr (sha256_hexdigest (encode (dumps True (JDict d')))), d'))"
| "replace sorted_list (JDict v) =
     (case hash_dict sorted_list v of
        (Inl e, v') \<Rightarrow> (Some e, JDict v')
      | (Inr h, v') \<Rightarrow> (None, JStr (''dict-'' @ h)))"
| "replace sorted_list (JList v) =
     (case sort_list sorted_list v of
        (Inl e, v') \<Rightarrow> (Some e, JList v')
      | (Inr result, v') \<Rightarrow> (None, JList result))"
| "replace sorted_list v = (None, v)"
| "list_loop sorted_list [] = (None, [])"
| "list_loop sorted_list (v # vs) =
     (case replace sorted_list v of
        (Some e, v') \<Rightarrow> (Some e, v' # vs)
      | (None, v') \<Rightarrow>
          (case list_loop sorted_list vs of (r, vs') \<Rightarrow> (r, v' # vs')))"
| "dict_loop sorted_list [] = (None, [])"
| "dict_loop sorted_list (item # items) =
     (case replace sorted_list (snd item) of
        (Some e, v') \<Rightarrow> (Some e, (fst item, v') # items)
      | (None, v') \<Rightarrow>
          (case dict_loop sorted_list items of (r, items') \<Rightarrow> (r, (fst item, v') # items')))"

definition hash_list :: "bool \<Rightarrow> json list \<Rightarrow> (py_error + string) \<times> json list" where
  "hash_list sorted_list l =
     (case sort_list sorted_list l of
        (Inl e, l') \<Rightarrow> (Inl e, l')
      | (Inr result, l') \<Rightarrow>
          (Inr (sha256_hexdigest (encode (dumps False (JList result)))), l'))"

definition hash_value :: "json \<Rightarrow> string" where
  "hash_value v = sha256_hexdigest (encode (py_str v))"

text \<open>
  \<open>json_hash(d, sorted_list)\<close>: the digest or the exception, and the value of the
  argument after the call.
\<close>

fun json_hash :: "json \<Rightarrow> bool \<Rightarrow> (py_error + string) \<times> json" where
  "json_hash (JDict d) sorted_list =
     (case hash_dict sorted_list d of (r, d') \<Rightarrow> (r, JDict d'))"
| "json_hash (JList l) sorted_list =
     (case hash_list sorted_list l of (r, l') \<Rightarrow> (r, JList l'))"
| "json_hash v sorted_list = (Inr (hash_value v), v)"




subsection \<open>The algorithm as the specification words it\<close>





text \<open>
  What one run of the loop body does to a value: whether it raises, and the value it
  writes back.
\<close>

definition succeeds :: "bool \<Rightarrow> json \<Rightarrow> bool" where
  "succeeds sl v = (fst (replace sl v) = None)"

definition replaced :: "bool \<Rightarrow> json \<Rightarrow> json" where
  "replaced sl v = snd (replace sl v)"

definition outcome :: "bool \<Rightarrow> json \<Rightarrow> py_error + json" where
  "outcome sl v = (case replace sl v of (Some e, v') \<Rightarrow> Inl e | (None, v') \<Rightarrow> Inr v')"



section \<open>Example values\<close>

text \<open>
  The posts and the index of the spec's example (dates written as the integers
  20240101 and 20240201), a post without timestamps, two posts that share an id, and
  stores that hold one indices object at address 0.
\<close>

definition post_1 :: post where
  "post_1 = \<lparr>post_id = ''1'', user = ''alice'', service = ''patreon'', title = ''first'',
     added = None, published = Some 20240101, edited = Some 20240101\<rparr>"

definition post_2 :: post where
  "post_2 = \<lparr>post_id = ''2'', user = ''alice'', service = ''patreon'', title = ''second'',
     added = None, published = Some 20240201, edited = Some 20240201\<rparr>"

definition post_undated :: post where
  "post_undated = \<lparr>post_id = ''1'', user = ''alice'', service = ''patreon'', title = ''first'',
     added = None, published = None, edited = None\<rparr>"

definition post_7_new :: post where
  "post_7_new = \<lparr>post_id = ''7'', user = ''alice'', service = ''patreon'', title = ''seven'',
     added = None, published = None, edited = Some 5\<rparr>"

definition post_7_old :: post where
  "post_7_old = \<lparr>post_id = ''7'', user = ''alice'', service = ''patreon'', title = ''seven'',
     added = None, published = None, edited = Some 3\<rparr>"

definition store_empty :: store where
  "store_empty = \<lparr>cells = (\<lambda>a. \<lparr>posts = Map.empty\<rparr>), next_free = 1\<rparr>"

definition store_1 :: store where
  "store_1 = \<lparr>cells = (\<lambda>a. \<lparr>posts = [''1'' \<mapsto> post_1]\<rparr>), next_free = 1\<rparr>"

text \<open>
  For the Path Namer: a \<open>config.job\<close> with the two attributes the function reads, the
  post of the spec's template example, and a post whose id is the empty string.
\<close>

definition job_with :: "bool \<Rightarrow> string \<Rightarrow> (string \<rightharpoonup> cfg_value)" where
  "job_with id_as_path template =
     [''post_id_as_path'' \<mapsto> PyBool id_as_path, ''post_dirname_format'' \<mapsto> PyStr template]"

definition post_42 :: post where
  "post_42 = \<lparr>post_id = ''42'', user = ''alice'', service = ''patreon'', title = ''hello'',
     added = None, published = None, edited = None\<rparr>"

definition post_no_id :: post where
  "post_no_id = \<lparr>post_id = [], user = ''alice'', service = ''patreon'', title = ''hello'',
     added = None, published = None, edited = None\<rparr>"


section \<open>Properties of the Time Window Filter\<close>

lemma py_filter_total:
  "list_all (\<lambda>x. pred x = Inr (q x)) xs \<Longrightarrow> py_filter pred xs = (filter q xs, None)"
  by (induction xs) auto

lemma py_filter_raises:
  "\<not> list_all (\<lambda>x. pred x = Inr (q x)) xs \<Longrightarrow>
   list_all (\<lambda>x. pred x = Inr (q x) \<or> pred x = Inl e) xs \<Longrightarrow>
   snd (py_filter pred xs) = Some e"
  by (induction xs) (auto split: prod.splits)

lemma match_post_time_present:
  "published p = Some t \<Longrightarrow>
   match_post_time p start_time end_time = Inr (in_window start_time end_time p)"
  by (cases start_time; cases end_time) (auto simp: match_post_time_def in_window_def)

text \<open>
  Claim C5. When every post of the list has a published timestamp, the filter yields,
  in the order of the input, exactly the posts with \<open>start \<le> published\<close> (when a start
  is given) and \<open>published \<le> end\<close> (when an end is given), and ends without an
  exception; a bound that is absent constrains nothing.
\<close>

theorem time_window_exact:
  "list_all (\<lambda>p. published p \<noteq> None) post_list \<Longrightarrow>
   filter_posts_by_time post_list start_time end_time =
     (filter (in_window start_time end_time) post_list, None)"
  unfolding filter_posts_by_time_def
  by (rule py_filter_total) (auto simp: list_all_iff match_post_time_present)

theorem time_window_exact_witness:
  "filter_posts_by_time [post_1, post_2] (Some 20240115) None = ([post_2], None) \<and>
   filter_posts_by_time [post_1, post_2] None (Some 20240115) = ([post_1], None) \<and>
   filter_posts_by_time [post_1, post_2] None None = ([post_1, post_2], None)"
  using time_window_exact [of "[post_1, post_2]" "Some 20240115" None]
    time_window_exact [of "[post_1, post_2]" None "Some 20240115"]
    time_window_exact [of "[post_1, post_2]" None None]
  by (simp add: in_window_def post_1_def post_2_def)

text \<open>
  Claim C3. The claim says that a post without a published timestamp is left out, with
  no error, whenever a bound is given. The code compares \<open>None\<close> with the bound, which
  raises: for every such post and window \<open>_match_post_time\<close> ends in \<open>TypeError\<close>, and
  a filter that reaches the post yields nothing more and ends in the same exception.
\<close>

theorem absent_published_raises:
  "published p = None \<Longrightarrow> start_time \<noteq> None \<or> end_time \<noteq> None \<Longrightarrow>
   match_post_time p start_time end_time = Inl TypeError \<and>
   filter_posts_by_time (p # rest) start_time end_time = ([], Some TypeError)"
  by (cases start_time; cases end_time)
    (auto simp: match_post_time_def filter_posts_by_time_def)

theorem absent_published_raises_witness:
  "match_post_time post_undated (Some 20240101) None = Inl TypeError \<and>
   filter_posts_by_time [post_undated, post_2] (Some 20240101) None = ([], Some TypeError) \<and>
   match_post_time post_undated None (Some 20240101) = Inl TypeError"
  using absent_published_raises [of post_undated "Some 20240101" None "[post_2]"]
    absent_published_raises [of post_undated None "Some 20240101" "[]"]
  by (simp add: post_undated_def)


section \<open>Properties of the Indices Differ\<close>

lemma edited_after_present:
  "timestamps_present indices x \<Longrightarrow> edited_after indices x = Inr (is_changed indices x)"
  by (auto simp: timestamps_present_def edited_after_def is_changed_def split: option.splits)

lemma edited_after_absent:
  "\<not> timestamps_present indices x \<Longrightarrow> edited_after indices x = Inl TypeError"
  by (auto simp: timestamps_present_def edited_after_def split: option.splits)

lemma changed_list:
  "py_list (py_filter (edited_after indices) ps) =
     (if list_all (timestamps_present indices) ps then Inr (filter (is_changed indices) ps)
      else Inl TypeError)"
proof (cases "list_all (timestamps_present indices) ps")
  case True
  then have "list_all (\<lambda>x. edited_after indices x = Inr (is_changed indices x)) ps"
    by (simp add: list_all_iff edited_after_present)
  then show ?thesis using True by (simp add: py_filter_total py_list_def)
next
  case False
  then obtain x where "x \<in> set ps" and "\<not> timestamps_present indices x"
    by (auto simp: list_all_iff)
  then have a: "\<not> list_all (\<lambda>x. edited_after indices x = Inr (is_changed indices x)) ps"
    by (auto simp: list_all_iff edited_after_absent intro!: bexI[of _ x])
  have b: "list_all (\<lambda>x. edited_after indices x = Inr (is_changed indices x) \<or>
      edited_after indices x = Inl TypeError) ps"
    unfolding list_all_iff using edited_after_present edited_after_absent by blast
  from py_filter_raises[OF a b] show ?thesis using False
    by (auto simp: py_list_def split: prod.splits option.splits)
qed

lemma cells_fold_set_post:
  "cells (fold (set_post a) l s) b =
     (if b = a
      then (cells s a)\<lparr>posts := fold (\<lambda>p m. m(post_id p \<mapsto> p)) l (posts (cells s a))\<rparr>
      else cells s b)"
  by (induction l arbitrary: s) (auto simp: set_post_def)

lemma fold_upd_other:
  "k \<notin> post_id ` set l \<Longrightarrow> fold (\<lambda>p m. m(post_id p \<mapsto> p)) l m k = m k"
  by (induction l arbitrary: m) auto

lemma fold_upd_member:
  "distinct (map post_id l) \<Longrightarrow> x \<in> set l \<Longrightarrow>
   fold (\<lambda>p m. m(post_id p \<mapsto> p)) l m (post_id x) = Some x"
  by (induction l arbitrary: m) (auto simp: fold_upd_other)

lemma dom_fold_upd:
  "dom (fold (\<lambda>p m. m(post_id p \<mapsto> p)) l m) = dom m \<union> post_id ` set l"
  by (induction l arbitrary: m) auto

lemma differ_result:
  "fst (filter_posts_by_indices ps a s) =
     (if list_all (timestamps_present (cells s a)) ps
      then Inr (filter (is_changed (cells s a)) ps, next_free s)
      else Inl TypeError)"
  by (simp add: filter_posts_by_indices_def changed_list model_copy_deep_def)

text \<open>
  Claim C1, as stated, fails: the comparison of line 87 raises \<open>TypeError\<close> when the
  post's id is in the index and the fetched or the stored \<open>edited\<close> is absent, and the
  function then returns no list at all.
\<close>

theorem differ_changed_counterexample:
  "fst (filter_posts_by_indices [post_2, post_undated] 0 store_1) = Inl TypeError"
  by (simp add: filter_posts_by_indices_def py_list_def edited_after_def
      store_1_def post_1_def post_2_def post_undated_def)

text \<open>
  Claim C1, amended. When every post whose id is in the index has an \<open>edited\<close>
  timestamp, and so has the record stored under that id, the changed list is exactly
  the posts whose id is absent from the index or whose \<open>edited\<close> is strictly greater
  than the stored one, in the order of the input (it is the input filtered). In every
  other case the call raises \<open>TypeError\<close>.
\<close>

theorem differ_changed:
  "fst (filter_posts_by_indices ps a s) =
     (if list_all (timestamps_present (cells s a)) ps
      then Inr (filter (is_changed (cells s a)) ps, next_free s)
      else Inl TypeError)"
  by (rule differ_result)

theorem differ_changed_witness:
  "fst (filter_posts_by_indices [post_1, post_2] 0 store_1) = Inr ([post_2], 1)"
  using differ_changed [of "[post_1, post_2]" 0 store_1]
  by (simp add: timestamps_present_def is_changed_def store_1_def post_1_def post_2_def)

text \<open>
  Claim C9. A call for an allocated indices object leaves every object that was in the
  store as it was, the input object among them; when it raises, the store is unchanged.
  When it returns, the updated indices are a new object, at an address that was not
  allocated before, and its ids are those of the input index together with those of
  the changed posts: no id is dropped.
\<close>

theorem differ_frame:
  assumes "a < next_free s" and "filter_posts_by_indices ps a s = (r, s')"
  shows "(\<forall>b < next_free s. cells s' b = cells s b) \<and>
         (case r of
            Inl e \<Rightarrow> s' = s
          | Inr (changed, new_indices) \<Rightarrow>
              next_free s \<le> new_indices \<and> new_indices \<noteq> a \<and>
              dom (posts (cells s' new_indices)) =
                dom (posts (cells s a)) \<union> post_id ` set changed)"
  using assms
  by (auto simp: filter_posts_by_indices_def changed_list model_copy_deep_def
      cells_fold_set_post dom_fold_upd split: if_splits)

theorem differ_frame_witness:
  "cells (snd (filter_posts_by_indices [post_1, post_2] 0 store_1)) 0 = cells store_1 0 \<and>
   fst (filter_posts_by_indices [post_1, post_2] 0 store_1) = Inr ([post_2], 1) \<and>
   dom (posts (cells (snd (filter_posts_by_indices [post_1, post_2] 0 store_1)) 1)) =
     {''1'', ''2''}"
proof -
  let ?call = "filter_posts_by_indices [post_1, post_2] 0 store_1"
  have r: "fst ?call = Inr ([post_2], 1)"
    by (simp add: differ_result timestamps_present_def is_changed_def store_1_def
        post_1_def post_2_def)
  then have c: "?call = (Inr ([post_2], 1), snd ?call)"
    by (metis prod.collapse)
  have pos: "0 < next_free store_1" by (simp add: store_1_def)
  from differ_frame [OF pos c]
  have "cells (snd ?call) 0 = cells store_1 0"
    and "dom (posts (cells (snd ?call) 1)) = dom (posts (cells store_1 0)) \<union> post_id ` set [post_2]"
    using pos by simp_all
  then show ?thesis using r by (simp add: store_1_def post_2_def insert_commute)
qed

lemma second_pass_unchanged:
  assumes present: "list_all (\<lambda>x. edited x \<noteq> None) ps"
    and dist: "distinct (map post_id ps)"
    and ok: "list_all (timestamps_present indices) ps"
    and x: "x \<in> set ps"
  defines "updated \<equiv> indices\<lparr>posts :=
      fold (\<lambda>p m. m(post_id p \<mapsto> p)) (filter (is_changed indices) ps) (posts indices)\<rparr>"
  shows "edited_after updated x = Inr False"
proof (cases "is_changed indices x")
  case True
  then have "x \<in> set (filter (is_changed indices) ps)" using x by simp
  moreover have "distinct (map post_id (filter (is_changed indices) ps))"
    using dist by (simp add: distinct_map_filter)
  ultimately have "posts updated (post_id x) = Some x"
    unfolding updated_def by (simp add: fold_upd_member)
  moreover obtain t where "edited x = Some t"
    using present x by (auto simp: list_all_iff)
  ultimately show ?thesis by (simp add: edited_after_def)
next
  case False
  have "post_id x \<notin> post_id ` set (filter (is_changed indices) ps)"
  proof
    assume "post_id x \<in> post_id ` set (filter (is_changed indices) ps)"
    then obtain y where y: "y \<in> set ps" "is_changed indices y" "post_id y = post_id x"
      by auto
    with dist x have "y = x" by (meson distinct_map inj_onD)
    with y False show False by simp
  qed
  then have "posts updated (post_id x) = posts indices (post_id x)"
    unfolding updated_def by (simp add: fold_upd_other)
  then have "edited_after updated x = edited_after indices x"
    by (simp add: edited_after_def)
  also have "\<dots> = Inr (is_changed indices x)"
    using ok x by (simp add: list_all_iff edited_after_present)
  finally show ?thesis using False by simp
qed

text \<open>
  Claim C6, as stated, fails for a list in which two posts share an id: both are new
  to an empty index, the later one is stored last, and when it carries the older
  \<open>edited\<close> the second call finds the earlier one changed again.
\<close>

theorem differ_idempotent_counterexample:
  "(case filter_posts_by_indices [post_7_new, post_7_old] 0 store_empty of
      (Inr (changed, updated), s') \<Rightarrow>
        changed = [post_7_new, post_7_old] \<and>
        fst (filter_posts_by_indices [post_7_new, post_7_old] updated s') =
          Inr ([post_7_new], 2)
    | (Inl e, s') \<Rightarrow> False)"
  by (simp add: filter_posts_by_indices_def py_list_def edited_after_def model_copy_deep_def
      set_post_def store_empty_def post_7_new_def post_7_old_def)

text \<open>
  Claim C6, amended. For a list of posts with pairwise distinct ids, each with an
  \<open>edited\<close> timestamp: when a call returns, a second call with the same posts and the
  updated indices of the first returns an empty changed list.
\<close>

theorem differ_idempotent:
  assumes "list_all (\<lambda>x. edited x \<noteq> None) ps"
    and "distinct (map post_id ps)"
    and "filter_posts_by_indices ps a s = (Inr (changed, updated), s')"
  shows "fst (filter_posts_by_indices ps updated s') = Inr ([], next_free s')"
proof -
  let ?ix = "cells s a"
  have ok: "list_all (timestamps_present ?ix) ps"
    using assms(3) differ_result[of ps a s] by (auto split: if_splits)
  have ch: "changed = filter (is_changed ?ix) ps" and up: "updated = next_free s"
    using assms(3) differ_result[of ps a s] ok by auto
  have s': "s' = fold (set_post updated) changed (snd (model_copy_deep a s))"
    using assms(3) ok
    by (auto simp: filter_posts_by_indices_def changed_list model_copy_deep_def)
  have cell: "cells s' updated = ?ix\<lparr>posts :=
      fold (\<lambda>p m. m(post_id p \<mapsto> p)) (filter (is_changed ?ix) ps) (posts ?ix)\<rparr>"
    by (simp add: s' cells_fold_set_post model_copy_deep_def up ch)
  have "list_all (\<lambda>x. edited_after (cells s' updated) x = Inr False) ps"
    unfolding list_all_iff cell
    using second_pass_unchanged[OF assms(1) assms(2) ok] by blast
  then have "py_filter (edited_after (cells s' updated)) ps = (filter (\<lambda>x. False) ps, None)"
    by (rule py_filter_total)
  then show ?thesis
    by (simp add: filter_posts_by_indices_def py_list_def model_copy_deep_def)
qed

theorem differ_idempotent_witness:
  "fst (filter_posts_by_indices [post_1, post_2] 0 store_1) = Inr ([post_2], 1) \<and>
   fst (filter_posts_by_indices [post_1, post_2] 1
          (snd (filter_posts_by_indices [post_1, post_2] 0 store_1))) = Inr ([], 2)"
proof -
  let ?ps = "[post_1, post_2]"
  let ?call = "filter_posts_by_indices ?ps 0 store_1"
  have r: "fst ?call = Inr ([post_2], 1)"
    by (simp add: differ_result timestamps_present_def is_changed_def store_1_def
        post_1_def post_2_def)
  then have c: "?call = (Inr ([post_2], 1), snd ?call)"
    by (metis prod.collapse)
  have n: "next_free (snd ?call) = 2"
    by (simp add: filter_posts_by_indices_def py_list_def edited_after_def
        model_copy_deep_def set_post_def store_1_def post_1_def post_2_def)
  have "list_all (\<lambda>x. edited x \<noteq> None) ?ps" "distinct (map post_id ?ps)"
    by (simp_all add: post_1_def post_2_def)
  from differ_idempotent [OF this c] r n show ?thesis by simp
qed


section \<open>Properties of the Path Namer\<close>

lemma emit_emit: "emit a (emit b r) = emit (a @ b) r"
  by (cases "(b, r)" rule: emit.cases) auto

lemma emit_Nil: "emit [] r = r"
  by (cases "([]::string, r)" rule: emit.cases) auto

lemma markup_text:
  "markup kw None (segment_source (Text s) @ rest) = emit s (markup kw None rest)"
  by (induction s) (simp_all add: emit_emit emit_Nil)

lemma markup_field_name:
  "list_all (\<lambda>c. c \<notin> set ''{}[!:'') n \<Longrightarrow>
   markup kw (Some acc) (n @ CHR ''}'' # rest) =
     (case get_field kw (acc @ n) of
        Some (Inr v) \<Rightarrow> emit v (markup kw None rest)
      | r \<Rightarrow> r)"
  by (induction n arbitrary: acc) simp_all

lemma plain_name_chars:
  "plain_name n \<Longrightarrow> list_all (\<lambda>c. c \<notin> set ''{}[!:'') n"
  unfolding plain_name_def list_all_iff by simp
lemma get_field_plain:
  assumes p: "plain_name n"
  shows "get_field kw n = (case kw n of None \<Rightarrow> Some (Inl (KeyError n)) | Some v \<Rightarrow> Some (Inr v))"
proof -
  have "\<forall>c\<in>set n. c \<noteq> CHR ''.''"
    using p unfolding plain_name_def list_all_iff by simp
  then have t: "takeWhile (\<lambda>c. c \<noteq> CHR ''.'') n = n"
    by (simp add: takeWhile_eq_all_conv)
  have a: "\<not> list_ex (\<lambda>c. 128 \<le> (of_char c :: nat)) n"
    using p unfolding plain_name_def list_all_iff list_ex_iff by (simp add: not_le)
  have b: "n \<noteq> []" "get_integer n = Inr None"
    using p unfolding plain_name_def by simp_all
  show ?thesis
    unfolding get_field_def Let_def t using a b by (simp split: option.splits)
qed

lemma markup_placeholder:
  assumes "plain_name n"
  shows "markup kw None (segment_source (Placeholder n) @ rest) =
     (case kw n of
        None \<Rightarrow> Some (Inl (KeyError n))
      | Some v \<Rightarrow> emit v (markup kw None rest))"
proof -
  from assms obtain c cs where n: "n = c # cs" and c: "c \<noteq> CHR ''{''"
    by (cases n) (auto simp: plain_name_def)
  have "markup kw None (segment_source (Placeholder n) @ rest) =
      markup kw (Some []) (n @ CHR ''}'' # rest)"
    using c by (simp add: n)
  also have "\<dots> = (case get_field kw n of
        Some (Inr v) \<Rightarrow> emit v (markup kw None rest) | r \<Rightarrow> r)"
    using markup_field_name[OF plain_name_chars[OF assms], of kw "[]" rest] by simp
  finally show ?thesis
    by (simp add: get_field_plain[OF assms] split: option.splits)
qed

lemma recognized_plain: "n \<in> set recognized \<Longrightarrow> plain_name n"
  unfolding recognized_def plain_name_def get_integer_def by auto
lemma recognized_kwargs: "n \<in> set recognized \<Longrightarrow> format_kwargs strftime p n \<noteq> None"
  unfolding recognized_def format_kwargs_def by auto

lemma markup_segments:
  "list_all recognized_segment segs \<Longrightarrow>
   markup (format_kwargs strftime p) None (template_of segs @ rest) =
     emit (concat (map (segment_value (format_kwargs strftime p)) segs))
       (markup (format_kwargs strftime p) None rest)"
proof (induction segs)
  case Nil
  then show ?case by (simp add: template_of_def emit_Nil)
next
  case (Cons g segs)
  then have ih: "markup (format_kwargs strftime p) None (template_of segs @ rest) =
     emit (concat (map (segment_value (format_kwargs strftime p)) segs))
       (markup (format_kwargs strftime p) None rest)" by simp
  show ?case
  proof (cases g)
    case (Text s)
    then show ?thesis
      using markup_text[of "format_kwargs strftime p" s "template_of segs @ rest"] ih
      by (simp add: template_of_def emit_emit del: segment_source.simps)
  next
    case (Placeholder n)
    with Cons.prems have r: "n \<in> set recognized" by simp
    then obtain v where v: "format_kwargs strftime p n = Some v"
      using recognized_kwargs by blast
    show ?thesis
      using markup_placeholder[OF recognized_plain[OF r], of "format_kwargs strftime p" "template_of segs @ rest"] ih v
      by (simp add: Placeholder template_of_def emit_emit del: segment_source.simps)
  qed
qed

lemma str_format_segments:
  "list_all recognized_segment segs \<Longrightarrow>
   str_format (template_of segs) (format_kwargs strftime p) =
     Some (Inr (concat (map (segment_value (format_kwargs strftime p)) segs)))"
  using markup_segments[of segs strftime p "[]"] by (simp add: str_format_def)

lemma str_format_unknown:
  assumes "list_all recognized_segment segs" and "plain_name n" and "n \<notin> set recognized"
  shows "str_format (template_of segs @ segment_source (Placeholder n) @ rest) (format_kwargs strftime p) =
     Some (Inl (KeyError n))"
proof -
  have "format_kwargs strftime p n = None"
    using assms(3) unfolding recognized_def format_kwargs_def by simp
  then show ?thesis
    using markup_segments[OF assms(1), of strftime p "segment_source (Placeholder n) @ rest"]
      markup_placeholder[OF assms(2), of "format_kwargs strftime p" rest]
    by (simp add: str_format_def del: segment_source.simps)
qed


lemma path_name_id:
  assumes "job ''post_id_as_path'' = Some (PyBool id_as_path)"
    and "id_as_path \<or> title p = []"
  shows "generate_post_path_name sanitize_filename strftime job p = ([], Some (Inr (post_id p)))"
  using assms by (simp add: generate_post_path_name_def py_getattr_def)

lemma path_name_rendered:
  assumes "job ''post_id_as_path'' = Some (PyBool False)" and "title p \<noteq> []"
    and "job ''post_dirname_format'' = Some (PyStr template)"
    and "str_format template (format_kwargs strftime p) = Some (Inr s)"
  shows "generate_post_path_name sanitize_filename strftime job p =
           ([], Some (Inr (sanitize_filename s)))"
  using assms by (simp add: generate_post_path_name_def py_getattr_def)

lemma path_name_key_error:
  assumes "job ''post_id_as_path'' = Some (PyBool False)" and "title p \<noteq> []"
    and "job ''post_dirname_format'' = Some (PyStr template)"
    and "str_format template (format_kwargs strftime p) = Some (Inl (KeyError k))"
  shows "generate_post_path_name sanitize_filename strftime job p =
           ([Error_logged (KeyError k)], Some (Inl (SystemExit 1)))"
  using assms by (simp add: generate_post_path_name_def py_getattr_def)

text \<open>
  Claim C2. The claim says that the function returns a name without failing, and
  \<open>post.id\<close> when the identifier-as-name option is set or the title is empty, reading
  a boolean \<open>post_id_as_path\<close> and a template \<open>post_dirname_format\<close>. The
  configuration that \<open>configuration.py\<close> declares has neither attribute (its switch
  is named \<open>post_id_as_name\<close>, and it has no template), so for every declared
  configuration and every post the call ends in \<open>AttributeError\<close> at line 18 and
  returns no name.
\<close>

theorem declared_configuration_raises:
  "generate_post_path_name sanitize_filename strftime
     (JobConfiguration count_value post_id_as_name_value) p =
     ([], Some (Inl AttributeError))"
  by (simp add: generate_post_path_name_def py_getattr_def JobConfiguration_def)


subsection \<open>The function on a configuration that has the two attributes\<close>

text \<open>
  What lines 18 to 36 do once \<open>config.job\<close> has a boolean \<open>post_id_as_path\<close> and a
  string \<open>post_dirname_format\<close>. With the option set, or an empty title, the id is
  returned as it is and the template is not read. Otherwise a template of literal
  text and recognized fields is rendered and passed to \<open>sanitize_filename\<close>, and a
  plain field outside the recognized set is logged once and ends in \<open>SystemExit 1\<close>.
\<close>

lemma path_name_of_template:
  assumes "job ''post_id_as_path'' = Some (PyBool id_as_path)"
  shows "(id_as_path \<or> title p = [] \<longrightarrow>
            generate_post_path_name sanitize_filename strftime job p =
              ([], Some (Inr (post_id p)))) \<and>
         (\<not> id_as_path \<and> title p \<noteq> [] \<and>
          job ''post_dirname_format'' = Some (PyStr (template_of segs)) \<and>
          list_all recognized_segment segs \<longrightarrow>
            generate_post_path_name sanitize_filename strftime job p =
              ([], Some (Inr (sanitize_filename
                 (concat (map (segment_value (format_kwargs strftime p)) segs))))))"
proof (intro conjI impI)
  assume "id_as_path \<or> title p = []"
  with assms show "generate_post_path_name sanitize_filename strftime job p =
      ([], Some (Inr (post_id p)))"
    by (rule path_name_id)
next
  assume a: "\<not> id_as_path \<and> title p \<noteq> [] \<and>
      job ''post_dirname_format'' = Some (PyStr (template_of segs)) \<and>
      list_all recognized_segment segs"
  then have f: "job ''post_id_as_path'' = Some (PyBool False)" using assms by simp
  have r: "str_format (template_of segs) (format_kwargs strftime p) =
      Some (Inr (concat (map (segment_value (format_kwargs strftime p)) segs)))"
    using a by (simp add: str_format_segments)
  from a have t: "title p \<noteq> []"
    and j: "job ''post_dirname_format'' = Some (PyStr (template_of segs))" by simp_all
  show "generate_post_path_name sanitize_filename strftime job p =
      ([], Some (Inr (sanitize_filename
         (concat (map (segment_value (format_kwargs strftime p)) segs)))))"
    by (rule path_name_rendered [OF f t j r])
qed

lemma path_name_of_template_example:
  "(\<forall>sanitize_filename strftime.
      generate_post_path_name sanitize_filename strftime (job_with True ''{user}-{id}'') post_42 =
        ([], Some (Inr ''42''))) \<and>
   (\<forall>sanitize_filename strftime.
      generate_post_path_name sanitize_filename strftime (job_with False ''{user}-{id}'') post_42 =
        ([], Some (Inr (sanitize_filename ''alice-42''))))"
proof -
  let ?segs = "[Placeholder ''user'', Text ''-'', Placeholder ''id'']"
  have t: "template_of ?segs = ''{user}-{id}''"
    by (simp add: template_of_def)
  have r: "list_all recognized_segment ?segs"
    by (simp add: recognized_def)
  have v: "concat (map (segment_value (format_kwargs strftime post_42)) ?segs) = ''alice-42''"
    for strftime
    by (simp add: format_kwargs_def post_42_def)
  have a: "job_with b ''{user}-{id}'' ''post_id_as_path'' = Some (PyBool b)"
    and f: "job_with b ''{user}-{id}'' ''post_dirname_format'' = Some (PyStr (template_of ?segs))"
    for b
    by (simp_all add: job_with_def t)
  have n: "title post_42 \<noteq> []" and i: "post_id post_42 = ''42''"
    by (simp_all add: post_42_def)
  have "generate_post_path_name sanitize_filename strftime (job_with True ''{user}-{id}'') post_42 =
      ([], Some (Inr ''42''))" for sanitize_filename strftime
    using path_name_of_template [where job = "job_with True ''{user}-{id}''" and p = post_42
        and segs = ?segs and sanitize_filename = sanitize_filename and strftime = strftime,
        OF a [of True], THEN conjunct1]
    by (simp add: i)
  moreover
  have "generate_post_path_name sanitize_filename strftime (job_with False ''{user}-{id}'') post_42 =
      ([], Some (Inr (sanitize_filename ''alice-42'')))" for sanitize_filename strftime
    using path_name_of_template [where job = "job_with False ''{user}-{id}''" and p = post_42
        and segs = ?segs and sanitize_filename = sanitize_filename and strftime = strftime,
        OF a [of False], THEN conjunct2, rule_format] f [of False] r n
    unfolding v by simp
  ultimately show ?thesis by simp
qed

lemma unknown_placeholder_exits:
  assumes "job ''post_id_as_path'' = Some (PyBool False)" and "title p \<noteq> []"
    and "job ''post_dirname_format'' =
           Some (PyStr (template_of segs @ segment_source (Placeholder n) @ rest))"
    and "list_all recognized_segment segs" and "plain_name n" and "n \<notin> set recognized"
  shows "generate_post_path_name sanitize_filename strftime job p =
           ([Error_logged (KeyError n)], Some (Inl (SystemExit 1)))"
  using assms(1-3) str_format_unknown[OF assms(4-6)] by (rule path_name_key_error)

lemma unknown_placeholder_exits_example:
  "\<forall>sanitize_filename strftime.
     generate_post_path_name sanitize_filename strftime
       (job_with False ''{user}-{foo}/{id'') post_42 =
       ([Error_logged (KeyError ''foo'')], Some (Inl (SystemExit 1)))"
proof -
  let ?segs = "[Placeholder ''user'', Text ''-'']"
  have t: "template_of ?segs @ segment_source (Placeholder ''foo'') @ ''/{id'' =
      ''{user}-{foo}/{id''"
    by (simp add: template_of_def)
  have a: "job_with False ''{user}-{foo}/{id'' ''post_id_as_path'' = Some (PyBool False)"
    and f: "job_with False ''{user}-{foo}/{id'' ''post_dirname_format'' =
      Some (PyStr (template_of ?segs @ segment_source (Placeholder ''foo'') @ ''/{id''))"
    unfolding t by (simp_all add: job_with_def)
  have n: "title post_42 \<noteq> []"
    by (simp add: post_42_def)
  have r: "list_all recognized_segment ?segs"
    by (simp add: recognized_def)
  have p: "plain_name ''foo''" and u: "''foo'' \<notin> set recognized"
    by (simp_all add: plain_name_def get_integer_def recognized_def)
  show ?thesis
    using unknown_placeholder_exits [where job = "job_with False ''{user}-{foo}/{id''"
        and p = post_42, OF a n f r p u]
    by simp
qed

lemma id_returned_unchanged_examples:
  "(\<forall>sanitize_filename strftime.
      generate_post_path_name sanitize_filename strftime (job_with True ''{id}'') post_no_id =
        ([], Some (Inr []))) \<and>
   (\<forall>sanitize_filename strftime.
      generate_post_path_name sanitize_filename strftime (job_with True ''{foo}'') post_1 =
        ([], Some (Inr ''1'')))"
  by (simp add: generate_post_path_name_def py_getattr_def job_with_def post_no_id_def
      post_1_def)

lemma uncaught_errors_examples:
  "(\<forall>sanitize_filename strftime.
      generate_post_path_name sanitize_filename strftime (job_with False ''{title}}'') post_1 =
        ([], Some (Inl ValueError))) \<and>
   (\<forall>sanitize_filename strftime.
      generate_post_path_name sanitize_filename strftime (job_with False ''{0}'') post_1 =
        ([], Some (Inl IndexError))) \<and>
   (\<forall>sanitize_filename strftime.
      generate_post_path_name sanitize_filename strftime
        (job_with False ''{9999999999999999999a}'') post_1 = ([], Some (Inl ValueError)))"
  by (simp add: generate_post_path_name_def py_getattr_def job_with_def post_1_def
      str_format_def get_field_def get_integer_def format_kwargs_def)


section \<open>Properties of the Canonical Hasher\<close>

subsection \<open>The constants of SHA-256\<close>

text \<open>The constants as numbers, for evaluation.\<close>

lemma round_constants_table [code]:
  "round_constants =
     [1116352408, 1899447441, 3049323471, 3921009573, 961987163, 1508970993,
      2453635748, 2870763221, 3624381080, 310598401, 607225278, 1426881987,
      1925078388, 2162078206, 2614888103, 3248222580, 3835390401, 4022224774,
      264347078, 604807628, 770255983, 1249150122, 1555081692, 1996064986,
      2554220882, 2821834349, 2952996808, 3210313671, 3336571891, 3584528711,
      113926993, 338241895, 666307205, 773529912, 1294757372, 1396182291,
      1695183700, 1986661051, 2177026350, 2456956037, 2730485921, 2820302411,
      3259730800, 3345764771, 3516065817, 3600352804, 4094571909, 275423344,
      430227734, 506948616, 659060556, 883997877, 958139571, 1322822218,
      1537002063, 1747873779, 1955562222, 2024104815, 2227730452, 2361852424,
      2428436474, 2756734187, 3204031479, 3329325298]"
  by code_simp

lemma initial_hash_table [code]:
  "initial_hash =
     [1779033703, 3144134277, 1013904242, 2773480762,
      1359893119, 2600822924, 528734635, 1541459225]"
  by code_simp

subsection \<open>The argument after the call\<close>







subsection \<open>The order-sensitive policy\<close>





subsection \<open>Exceptions\<close>

lemma py_sorted_error: "py_sorted l = Inl e \<Longrightarrow> e = TypeError"
  by (simp add: py_sorted_def split: if_splits)

lemma list_loop_error:
  "(\<And>x e. x \<in> set l \<Longrightarrow> fst (replace sl x) = Some e \<Longrightarrow> e = TypeError) \<Longrightarrow>
   fst (list_loop sl l) = Some e \<Longrightarrow> e = TypeError"
proof (induction l)
  case (Cons x xs)
  show ?case
  proof (cases "fst (replace sl x)")
    case None
    with Cons show ?thesis by (auto split: prod.splits option.splits)
  next
    case (Some e')
    with Cons.prems(1)[of x e'] Cons.prems(2) show ?thesis
      by (auto split: prod.splits option.splits)
  qed
qed simp

lemma dict_loop_error:
  "(\<And>item e. item \<in> set d \<Longrightarrow> fst (replace sl (snd item)) = Some e \<Longrightarrow> e = TypeError) \<Longrightarrow>
   fst (dict_loop sl d) = Some e \<Longrightarrow> e = TypeError"
proof (induction d)
  case (Cons x xs)
  show ?case
  proof (cases "fst (replace sl (snd x))")
    case None
    with Cons show ?thesis by (auto split: prod.splits option.splits)
  next
    case (Some e')
    with Cons.prems(1)[of x e'] Cons.prems(2) show ?thesis
      by (auto split: prod.splits option.splits)
  qed
qed simp

lemma replace_error: "fst (replace sl v) = Some e \<Longrightarrow> e = TypeError"
proof (induction v arbitrary: e)
  case (JList xs)
  have loop: "fst (list_loop sl xs) = Some e' \<Longrightarrow> e' = TypeError" for e'
    using JList.IH by (intro list_loop_error[of xs sl e']) auto
  from JList.prems show ?case
    using loop by (auto split: prod.splits option.splits sum.splits if_splits dest: py_sorted_error)
next
  case (JDict d)
  have loop: "fst (dict_loop sl d) = Some e' \<Longrightarrow> e' = TypeError" for e'
    using JDict.IH by (intro dict_loop_error[of d sl e']) (auto simp: snds.simps)
  from JDict.prems show ?case
    using loop by (auto split: prod.splits option.splits sum.splits if_splits)
qed simp_all

lemma not_succeeds: "\<not> succeeds sl v \<Longrightarrow> fst (replace sl v) = Some TypeError"
  unfolding succeeds_def using replace_error by (cases "fst (replace sl v)") auto





lemma outcome_eq:
  "outcome sl v = (if succeeds sl v then Inr (replaced sl v) else Inl TypeError)"
  using not_succeeds[of sl v]
  by (auto simp: outcome_def succeeds_def replaced_def split: prod.splits option.splits)

lemma succeeds_outcome: "succeeds sl v \<longleftrightarrow> outcome sl v = Inr (replaced sl v)"
  by (simp add: outcome_eq)













text \<open>
  Claim C7: a digest for every tree. Under \<open>sorted_list\<close> the call raises
  \<open>TypeError\<close> on \<open>[[1], ["a"]]\<close>: both sort keys start with the type name of lists, so
  the lists \<open>[1]\<close> and \<open>["a"]\<close> are compared, and with them \<open>1\<close> and \<open>"a"\<close>. At the top
  of a list the type names in the keys keep \<open>1\<close> and \<open>"a"\<close> apart, and both orders of
  the two get the digest of \<open>[1, "a"]\<close>.
\<close>

theorem nested_mixed_types_raise:
  "fst (json_hash (JList [JList [JInt 1], JList [JStr ''a'']]) True) = Inl TypeError \<and>
   fst (json_hash (JList [JInt 1, JStr ''a'']) True) =
     Inr (sha256_hexdigest (encode (dumps False (JList [JInt 1, JStr ''a''])))) \<and>
   fst (json_hash (JList [JStr ''a'', JInt 1]) True) =
     Inr (sha256_hexdigest (encode (dumps False (JList [JInt 1, JStr ''a'']))))"
  by (simp add: hash_list_def py_sorted_def key_less_def)

subsection \<open>Sorting scalars\<close>











subsection \<open>Reordering a list\<close>





subsection \<open>Digests of some texts\<close>












end
